theory Spec2Isabelle
  imports Main "HOL-Library.Log_Nat" "HOL-Library.Code_Target_Numeral"
begin

section \<open>Python floats: binary64 values over the rationals\<close>

text \<open>
  A Python \<^verbatim>\<open>float\<close> is an IEEE-754 binary64 value. A finite value is kept as its
  sign bit and its magnitude, an exact rational (so \<open>Fin True 0\<close> is \<^verbatim>\<open>-0.0\<close>); the
  two infinities carry their sign bit; there is one NaN. Every arithmetic result is
  computed exactly over the rationals and then rounded to the nearest binary64 value,
  ties to even, which is what the hardware does.
\<close>

datatype float64 = Fin bool rat | Inf bool | NaN

text \<open>\<open>floor_log b q\<close> is \<open>\<lfloor>log\<^sub>b q\<rfloor>\<close> for a positive rational \<open>q\<close>: one less than the
  number of base-\<open>b\<close> digits of \<open>\<lfloor>q\<rfloor>\<close> when \<open>1 \<le> q\<close>; otherwise minus the least \<open>k\<close>
  with \<open>1 / q \<le> b ^ k\<close>, the number of digits of \<open>\<lceil>1 / q\<rceil> - 1\<close>.\<close>

definition floor_log :: "nat \<Rightarrow> rat \<Rightarrow> int" where
  "floor_log b q =
     (if 1 \<le> q then int (floorlog b (nat \<lfloor>q\<rfloor>)) - 1
      else - int (floorlog b (nat (\<lceil>1 / q\<rceil> - 1))))"

definition round_half_even :: "rat \<Rightarrow> int" where
  "round_half_even q =
     (let f = \<lfloor>q\<rfloor>; r = q - of_int f
      in if r < 1 / 2 then f
         else if 1 / 2 < r then f + 1
         else if even f then f else f + 1)"

text \<open>Rounding a magnitude \<open>q \<ge> 0\<close> to binary64: 53 significant bits, the least exponent
  \<open>-1074\<close> (subnormals), overflow to infinity from \<open>2 ^ 1024\<close> on.\<close>

definition round64 :: "bool \<Rightarrow> rat \<Rightarrow> float64" where
  "round64 sg q =
     (if q = 0 then Fin sg 0
      else let e = max (floor_log 2 q - 52) (- 1074);
               v = of_int (round_half_even (q / 2 powi e)) * 2 powi e
           in if 2 ^ 1024 \<le> v then Inf sg else Fin sg v)"

definition signed :: "bool \<Rightarrow> rat \<Rightarrow> rat" where
  "signed sg q = (if sg then - q else q)"

text \<open>Python's \<^verbatim>\<open>==\<close> and \<^verbatim>\<open>!=\<close> on floats: the two zeros are equal, NaN equals nothing.\<close>

fun py_eq :: "float64 \<Rightarrow> float64 \<Rightarrow> bool" where
  "py_eq (Fin s a) (Fin t b) = (signed s a = signed t b)"
| "py_eq (Inf s) (Inf t) = (s = t)"
| "py_eq _ _ = False"

definition py_ne :: "float64 \<Rightarrow> float64 \<Rightarrow> bool" where
  "py_ne x y = (\<not> py_eq x y)"

fun py_neg :: "float64 \<Rightarrow> float64" where
  "py_neg (Fin s a) = Fin (\<not> s) a"
| "py_neg (Inf s) = Inf (\<not> s)"
| "py_neg NaN = NaN"

text \<open>\<^verbatim>\<open>a + b\<close>. An exact zero sum is \<^verbatim>\<open>-0.0\<close> only when both operands are negative.\<close>

fun py_add :: "float64 \<Rightarrow> float64 \<Rightarrow> float64" where
  "py_add (Fin s a) (Fin t b) =
     (let r = signed s a + signed t b
      in if r = 0 then Fin (s \<and> t) 0 else round64 (r < 0) \<bar>r\<bar>)"
| "py_add (Inf s) (Inf t) = (if s = t then Inf s else NaN)"
| "py_add (Inf s) (Fin t b) = Inf s"
| "py_add (Fin s a) (Inf t) = Inf t"
| "py_add _ _ = NaN"

definition py_sub :: "float64 \<Rightarrow> float64 \<Rightarrow> float64" where
  "py_sub a b = py_add a (py_neg b)"

fun py_mul :: "float64 \<Rightarrow> float64 \<Rightarrow> float64" where
  "py_mul (Fin s a) (Fin t b) = round64 (s \<noteq> t) (a * b)"
| "py_mul (Inf s) (Inf t) = Inf (s \<noteq> t)"
| "py_mul (Inf s) (Fin t b) = (if b = 0 then NaN else Inf (s \<noteq> t))"
| "py_mul (Fin s a) (Inf t) = (if a = 0 then NaN else Inf (s \<noteq> t))"
| "py_mul _ _ = NaN"

text \<open>\<^verbatim>\<open>a / b\<close> raises ZeroDivisionError when \<^verbatim>\<open>b == 0.0\<close>, whatever \<^verbatim>\<open>a\<close> is: that is
  the value \<open>None\<close>.\<close>

fun py_truediv :: "float64 \<Rightarrow> float64 \<Rightarrow> float64 option" where
  "py_truediv x (Fin t b) =
     (if b = 0 then None
      else case x of
             Fin s a \<Rightarrow> Some (round64 (s \<noteq> t) (a / b))
           | Inf s \<Rightarrow> Some (Inf (s \<noteq> t))
           | NaN \<Rightarrow> Some NaN)"
| "py_truediv (Fin s a) (Inf t) = Some (Fin (s \<noteq> t) 0)"
| "py_truediv _ _ = Some NaN"


section \<open>Strings\<close>

text \<open>
  A Python \<^verbatim>\<open>str\<close> is a sequence of code points; it is modelled as a \<open>string\<close>, one
  \<open>char\<close> per code point. The program's only text outside ASCII is the error message
  of \<^verbatim>\<open>_format_number\<close>, six Cyrillic letters; each of them is written as the one
  \<open>char\<close> that the single-byte code page 1251 gives it, so that the message has length
  six and shares no character with a number.
\<close>

definition error_text :: string where
  "error_text = [CHR 0xCE, CHR 0xF8, CHR 0xE8, CHR 0xE1, CHR 0xEA, CHR 0xE0]"

definition rstrip :: "string \<Rightarrow> string \<Rightarrow> string" where
  "rstrip s chars = rev (dropWhile (\<lambda>c. c \<in> set chars) (rev s))"

definition startswith :: "string \<Rightarrow> string \<Rightarrow> bool" where
  "startswith s p = (take (length p) s = p)"

definition replace_char :: "string \<Rightarrow> char \<Rightarrow> char \<Rightarrow> string" where
  "replace_char s old new = map (\<lambda>c. if c = old then new else c) s"

definition is_digit :: "char \<Rightarrow> bool" where
  "is_digit c = (c \<in> set ''0123456789'')"

definition digit_val :: "char \<Rightarrow> nat" where
  "digit_val c = of_char c - 48"

definition digits_val :: "string \<Rightarrow> nat" where
  "digits_val ds = foldl (\<lambda>n c. 10 * n + digit_val c) 0 ds"

text \<open>\<^verbatim>\<open>str(n)\<close> for a natural number.\<close>

fun dec_digits :: "nat \<Rightarrow> string" where
  "dec_digits n =
     (if n < 10 then [''0123456789'' ! n]
      else dec_digits (n div 10) @ [''0123456789'' ! (n mod 10)])"

declare dec_digits.simps [simp del]

definition zfill :: "nat \<Rightarrow> string \<Rightarrow> string" where
  "zfill w s = replicate (w - length s) CHR ''0'' @ s"

section \<open>\<^verbatim>\<open>float(text)\<close>\<close>

text \<open>
  \<^verbatim>\<open>float\<close> on a string: underscores are accepted between two digits only and dropped;
  white space is stripped at both ends; then comes an optional sign and either
  \<^verbatim>\<open>inf\<close>, \<^verbatim>\<open>infinity\<close> or \<^verbatim>\<open>nan\<close> in any case, or a decimal numeral with at least one
  digit, an optional point and an optional exponent. The numeral is rounded correctly.
  Anything else raises ValueError: the value \<open>None\<close>. (Decimal digits and white space
  outside ASCII, which Python also accepts, have no \<open>char\<close> here.)
\<close>

definition is_space :: "char \<Rightarrow> bool" where
  "is_space c = (c \<in> set [CHR 0x09, CHR 0x0A, CHR 0x0B, CHR 0x0C, CHR 0x0D,
                           CHR 0x1C, CHR 0x1D, CHR 0x1E, CHR 0x1F, CHR 0x20])"

definition strip :: "string \<Rightarrow> string" where
  "strip s = rev (dropWhile is_space (rev (dropWhile is_space s)))"

fun underscores_ok :: "char \<Rightarrow> string \<Rightarrow> bool" where
  "underscores_ok prev [] = (prev \<noteq> CHR ''_'')"
| "underscores_ok prev (c # cs) =
     ((if c = CHR ''_'' then is_digit prev
       else if prev = CHR ''_'' then is_digit c else True)
      \<and> underscores_ok c cs)"

definition to_lower :: "char \<Rightarrow> char" where
  "to_lower c = (if of_char c \<in> {65 .. 90 :: nat} then char_of (of_char c + 32 :: nat) else c)"

definition parse_exponent :: "string \<Rightarrow> int option" where
  "parse_exponent s =
     (let neg = startswith s ''-'';
          ds = (if startswith s ''-'' \<or> startswith s ''+'' then tl s else s)
      in if ds \<noteq> [] \<and> list_all is_digit ds
         then Some (if neg then - int (digits_val ds) else int (digits_val ds))
         else None)"

definition parse_number :: "string \<Rightarrow> rat option" where
  "parse_number s =
     (let ip = takeWhile is_digit s;
          r1 = dropWhile is_digit s;
          fp = (if startswith r1 ''.'' then takeWhile is_digit (tl r1) else []);
          r2 = (if startswith r1 ''.'' then dropWhile is_digit (tl r1) else r1);
          m = of_nat (digits_val (ip @ fp))
      in if ip = [] \<and> fp = [] then None
         else if r2 = [] then Some (m * 10 powi (- int (length fp)))
         else if startswith r2 ''e'' \<or> startswith r2 ''E''
         then (case parse_exponent (tl r2) of
                 None \<Rightarrow> None
               | Some x \<Rightarrow> Some (m * 10 powi (x - int (length fp))))
         else None)"

definition py_float :: "string \<Rightarrow> float64 option" where
  "py_float text =
     (if CHR ''_'' \<in> set text \<and> \<not> underscores_ok (CHR 0x00) text then None
      else let s = strip (filter (\<lambda>c. c \<noteq> CHR ''_'') text);
               sg = startswith s ''-'';
               body = (if startswith s ''-'' \<or> startswith s ''+'' then tl s else s);
               low = map to_lower body
           in if low = ''inf'' \<or> low = ''infinity'' then Some (Inf sg)
              else if low = ''nan'' then Some NaN
              else case parse_number body of
                     None \<Rightarrow> None
                   | Some q \<Rightarrow> Some (round64 sg q))"

section \<open>\<^verbatim>\<open>%\<close>-formatting of floats\<close>

text \<open>
  \<^verbatim>\<open>"%0.12g" % value\<close>, \<^verbatim>\<open>"%0.12f" % value\<close> and \<^verbatim>\<open>"%0.6e" % value\<close>: the decimal
  rendering of the exact binary value, rounded half-even to the digits asked for. The
  flag \<^verbatim>\<open>0\<close> pads to a field width, and no width is given.
\<close>

definition sign_str :: "bool \<Rightarrow> string" where
  "sign_str sg = (if sg then ''-'' else [])"

text \<open>The \<open>p + 1\<close> significant digits of a positive \<open>q\<close>, as a number, and the decimal
  exponent of the first one.\<close>

definition sci_digits :: "nat \<Rightarrow> rat \<Rightarrow> nat \<times> int" where
  "sci_digits p q =
     (let x = floor_log 10 q;
          d = nat (round_half_even (q / 10 powi (x - int p)))
      in if d = 10 ^ (p + 1) then (10 ^ p, x + 1) else (d, x))"

definition fmt_exp :: "int \<Rightarrow> string" where
  "fmt_exp x = ''e'' @ (if x < 0 then ''-'' else ''+'') @ zfill 2 (dec_digits (nat \<bar>x\<bar>))"

fun fmt_f :: "nat \<Rightarrow> float64 \<Rightarrow> string" where
  "fmt_f p (Fin sg q) =
     (let ds = zfill (p + 1) (dec_digits (nat (round_half_even (q * 10 ^ p))));
          k = length ds - p
      in sign_str sg @ take k ds @ (if p = 0 then [] else ''.'' @ drop k ds))"
| "fmt_f p (Inf sg) = sign_str sg @ ''inf''"
| "fmt_f p NaN = ''nan''"

fun fmt_e :: "nat \<Rightarrow> float64 \<Rightarrow> string" where
  "fmt_e p (Fin sg q) =
     (let (d, x) = (if q = 0 then (0, 0) else sci_digits p q);
          ds = zfill (p + 1) (dec_digits d)
      in sign_str sg @ take 1 ds @ (if p = 0 then [] else ''.'' @ drop 1 ds) @ fmt_exp x)"
| "fmt_e p (Inf sg) = sign_str sg @ ''inf''"
| "fmt_e p NaN = ''nan''"

definition strip_zeros :: "string \<Rightarrow> string" where
  "strip_zeros s = (if CHR ''.'' \<in> set s then rstrip (rstrip s ''0'') ''.'' else s)"

text \<open>\<^verbatim>\<open>%.Pg\<close> with \<open>P \<ge> 1\<close>: with \<open>x\<close> the decimal exponent of the value rounded to \<open>P\<close>
  significant digits, fixed notation with \<open>P - 1 - x\<close> decimals when \<open>-4 \<le> x < P\<close> and
  exponent notation otherwise, trailing zeros dropped in both.\<close>

fun fmt_g :: "nat \<Rightarrow> float64 \<Rightarrow> string" where
  "fmt_g P (Fin sg q) =
     (let (d, x) = (if q = 0 then (0, 0) else sci_digits (P - 1) q)
      in if - 4 \<le> x \<and> x < int P
         then strip_zeros (fmt_f (nat (int P - 1 - x)) (Fin sg q))
         else let ds = zfill P (dec_digits d)
              in sign_str sg @ strip_zeros (take 1 ds @ ''.'' @ drop 1 ds) @ fmt_exp x)"
| "fmt_g P (Inf sg) = sign_str sg @ ''inf''"
| "fmt_g P NaN = ''nan''"


section \<open>The calculator\<close>

text \<open>
  The state of \<^verbatim>\<open>CalculatorApp\<close>: the eight attributes that \<^verbatim>\<open>reset_all\<close> sets, and
  the two texts that \<^verbatim>\<open>_update_display\<close> writes into the widgets, the label of the
  AC/C button and the display variable. Operators are the strings the program passes
  around.
\<close>

record calc =
  acc :: float64
  current :: string
  operator :: "string option"
  last_operator :: "string option"
  last_operand :: "float64 option"
  just_evaluated :: bool
  awaiting_operand :: bool
  has_input :: bool
  btn_ac :: string
  display_var :: string

text \<open>An exception that leaves a handler. Where the program catches one (\<^verbatim>\<open>try\<close> and
  \<^verbatim>\<open>except\<close>), the model takes the \<open>None\<close> of the operation that raises it.\<close>

datatype exn = ValueError | ZeroDivisionError

definition format_number :: "float64 \<Rightarrow> string" where
  "format_number v =
     (if py_eq v (Inf False) \<or> py_ne v v then error_text
      else let s = fmt_g 12 v;
               s = (if CHR ''e'' \<in> set s \<or> CHR ''E'' \<in> set s
                    then rstrip (rstrip (fmt_f 12 v) ''0'') ''.'' else s);
               s = (if CHR ''.'' \<in> set s then rstrip (rstrip s ''0'') ''.'' else s);
               s = (if 12 < length s then fmt_e 6 v else s)
           in s)"

definition update_display :: "calc \<Rightarrow> calc" where
  "update_display s =
     (let text = current s;
          shown =
            (if text = error_text then text
             else case operator s of
                    Some op \<Rightarrow>
                      (let left = format_number (acc s)
                       in if awaiting_operand s then left @ '' '' @ op
                          else let right = (case py_float text of
                                              Some v \<Rightarrow> format_number v
                                            | None \<Rightarrow> text)
                               in left @ '' '' @ op @ '' '' @ right)
                  | None \<Rightarrow>
                      (case py_float text of
                         Some v \<Rightarrow> format_number v
                       | None \<Rightarrow> text))
      in s\<lparr>btn_ac := (if has_input s \<or> just_evaluated s then ''C'' else ''AC''),
           display_var := shown\<rparr>)"

definition reset_all :: "calc \<Rightarrow> calc" where
  "reset_all s =
     s\<lparr>acc := Fin False 0, current := ''0'', operator := None, last_operator := None,
       last_operand := None, just_evaluated := False, awaiting_operand := False,
       has_input := False\<rparr>"

text \<open>The state when \<^verbatim>\<open>__init__\<close> returns: \<^verbatim>\<open>reset_all\<close>, then \<^verbatim>\<open>_build_ui\<close>, which makes the
  button with the label AC and ends with \<^verbatim>\<open>_update_display\<close>.\<close>

definition init :: calc where
  "init = update_display
     \<lparr>acc = Fin False 0, current = ''0'', operator = None, last_operator = None,
      last_operand = None, just_evaluated = False, awaiting_operand = False,
      has_input = False, btn_ac = ''AC'', display_var = []\<rparr>"

definition set_current :: "string \<Rightarrow> calc \<Rightarrow> calc" where
  "set_current text s = update_display (s\<lparr>current := text, has_input := (text \<noteq> ''0'')\<rparr>)"

text \<open>The first lines that \<^verbatim>\<open>_append_digit\<close> and \<^verbatim>\<open>input_dot\<close> share.\<close>

definition begin_entry :: "calc \<Rightarrow> calc" where
  "begin_entry s =
     (let s1 = (if just_evaluated s \<and> operator s = None then reset_all s else s);
          s2 = s1\<lparr>just_evaluated := False\<rparr>
      in if awaiting_operand s2
         then s2\<lparr>current := ''0'', has_input := False, awaiting_operand := False\<rparr>
         else s2)"

definition append_digit :: "string \<Rightarrow> calc \<Rightarrow> calc" where
  "append_digit d s =
     (let s3 = begin_entry s
      in if current s3 \<in> set [''-0'', ''0'']
         then set_current ((if startswith (current s3) ''-'' then ''-'' else []) @ d) s3
         else set_current (current s3 @ d) s3)"

definition input_dot :: "calc \<Rightarrow> calc" where
  "input_dot s =
     (let s3 = begin_entry s
      in if CHR ''.'' \<notin> set (current s3) then set_current (current s3 @ ''.'') s3 else s3)"

definition toggle_sign :: "calc \<Rightarrow> calc" where
  "toggle_sign s =
     (if startswith (current s) ''-'' then set_current (drop 1 (current s)) s
      else if current s \<noteq> ''0'' then set_current (''-'' @ current s) s
      else s)"

text \<open>\<^verbatim>\<open>percent\<close> divides outside any \<^verbatim>\<open>try\<close>: a ZeroDivisionError there would leave the
  handler.\<close>

definition percent :: "calc \<Rightarrow> exn + calc" where
  "percent s =
     (case py_float (replace_char (current s) CHR '','' CHR ''.'') of
        None \<Rightarrow> Inr s
      | Some cur \<Rightarrow>
          (case py_truediv cur (Fin False 100) of
             None \<Rightarrow> Inl ZeroDivisionError
           | Some c \<Rightarrow>
               Inr (set_current
                      (format_number (if operator s = None then c else py_mul (acc s) c)) s)))"

definition clear_entry_or_all :: "calc \<Rightarrow> calc" where
  "clear_entry_or_all s =
     (if has_input s \<or> just_evaluated s
      then update_display ((set_current ''0'' s)\<lparr>just_evaluated := False, has_input := False\<rparr>)
      else let saved_current = current s
           in update_display
                ((reset_all s)\<lparr>current := saved_current, has_input := (saved_current \<noteq> ''0'')\<rparr>))"

definition backspace :: "calc \<Rightarrow> calc" where
  "backspace s =
     (if just_evaluated s then s
      else let t = current s
           in if length t \<le> 1 \<or> (length t = 2 \<and> startswith t ''-'')
              then set_current ''0'' s
              else set_current (butlast t) s)"

text \<open>\<^verbatim>\<open>_apply_operator\<close>: the division is the one operation of the \<^verbatim>\<open>try\<close> block that can
  raise, and the \<^verbatim>\<open>except\<close> clause answers positive infinity.\<close>

definition apply_operator :: "float64 \<Rightarrow> float64 \<Rightarrow> string \<Rightarrow> float64" where
  "apply_operator a b op =
     (if op = ''+'' then py_add a b
      else if op = ''-'' then py_sub a b
      else if op = ''*'' then py_mul a b
      else if op = ''/'' then (case py_truediv a b of Some res \<Rightarrow> res | None \<Rightarrow> Inf False)
      else b)"

text \<open>\<^verbatim>\<open>try: cur = float(self.current)\<close>, \<^verbatim>\<open>except ValueError: cur = 0.0\<close>.\<close>

definition float_or_zero :: "string \<Rightarrow> float64" where
  "float_or_zero text = (case py_float text of Some v \<Rightarrow> v | None \<Rightarrow> Fin False 0)"

definition set_operator :: "string \<Rightarrow> calc \<Rightarrow> calc" where
  "set_operator op s =
     (let s1 = (if just_evaluated s then s\<lparr>just_evaluated := False\<rparr> else s);
          cur = float_or_zero (current s1);
          s2 = (case operator s1 of
                  None \<Rightarrow> s1\<lparr>acc := cur\<rparr>
                | Some pending \<Rightarrow> s1\<lparr>acc := apply_operator (acc s1) cur pending\<rparr>)
      in update_display
           (s2\<lparr>operator := Some op, last_operator := None, last_operand := None,
               awaiting_operand := True\<rparr>))"

definition equals :: "calc \<Rightarrow> calc" where
  "equals s =
     (let cur = float_or_zero (current s)
      in case operator s of
           None \<Rightarrow>
             (let result = (case (last_operator s, last_operand s) of
                              (Some lop, Some lod) \<Rightarrow> apply_operator cur lod lop
                            | _ \<Rightarrow> cur)
              in (set_current (format_number result) s)\<lparr>just_evaluated := True\<rparr>)
         | Some op \<Rightarrow>
             (let result = apply_operator (acc s) cur op;
                  s1 = s\<lparr>last_operator := Some op, last_operand := Some cur, operator := None\<rparr>
              in (set_current (format_number result) s1)\<lparr>just_evaluated := True\<rparr>))"

text \<open>The events that the buttons and the keys deliver (\<^verbatim>\<open>_build_ui\<close>, \<^verbatim>\<open>_bind_keys\<close>): the
  ten digits and the four operator signs are the only arguments they pass.\<close>

datatype event =
    Digit char | Point | ToggleSign | Percent | SetOperator string
  | Equals | ClearOrReset | Backspace

definition public_event :: "event \<Rightarrow> bool" where
  "public_event e =
     (case e of
        Digit d \<Rightarrow> is_digit d
      | SetOperator op \<Rightarrow> op \<in> set [''+'', ''-'', ''*'', ''/'']
      | _ \<Rightarrow> True)"

fun step :: "event \<Rightarrow> calc \<Rightarrow> exn + calc" where
  "step (Digit d) s = Inr (append_digit [d] s)"
| "step Point s = Inr (input_dot s)"
| "step ToggleSign s = Inr (toggle_sign s)"
| "step Percent s = percent s"
| "step (SetOperator op) s = Inr (set_operator op s)"
| "step Equals s = Inr (equals s)"
| "step ClearOrReset s = Inr (clear_entry_or_all s)"
| "step Backspace s = Inr (backspace s)"

fun run :: "event list \<Rightarrow> calc \<Rightarrow> exn + calc" where
  "run [] s = Inr s"
| "run (e # es) s = (case step e s of Inl x \<Rightarrow> Inl x | Inr s' \<Rightarrow> run es s')"

inductive reachable :: "calc \<Rightarrow> bool" where
  reachable_init: "reachable init"
| reachable_step: "reachable s \<Longrightarrow> public_event e \<Longrightarrow> step e s = Inr s' \<Longrightarrow> reachable s'"


section \<open>Evaluation on concrete inputs\<close>

lemma floor_rat_numeral_div: "\<lfloor>numeral a / numeral b :: rat\<rfloor> = numeral a div numeral b"
  by (metis floor_divide_of_int_eq of_int_numeral)

lemma floor_rat_one_div: "\<lfloor>1 / numeral b :: rat\<rfloor> = 1 div numeral b"
  by (metis floor_divide_of_int_eq of_int_1 of_int_numeral)

lemma ceiling_rat_numeral_div:
  "\<lceil>numeral a / numeral b :: rat\<rceil> = - (- numeral a div numeral b)"
  unfolding ceiling_def
  by (metis divide_minus_left floor_divide_of_int_eq of_int_neg_numeral of_int_numeral)

lemma ceiling_rat_one_div: "\<lceil>1 / numeral b :: rat\<rceil> = - (- 1 div numeral b)"
  unfolding ceiling_def
  by (metis divide_minus_left floor_divide_of_int_eq of_int_minus of_int_1 of_int_numeral)

lemma replicate_numeral_eval: "replicate (numeral v) x = x # replicate (numeral v - 1) x"
  by (simp add: numeral_eq_Suc)

text \<open>The recursive equations, for arguments that are numerals only.\<close>

lemmas floorlog_eval =
  compute_floorlog [of _ "numeral k"] compute_floorlog [of _ 0] compute_floorlog [of _ 1]
  compute_floorlog [of _ "Suc 0"] for k

lemmas dec_digits_eval =
  dec_digits.simps [of "numeral k"] dec_digits.simps [of 0] dec_digits.simps [of 1]
  dec_digits.simps [of "Suc 0"] for k

lemmas float_eval =
  round64_def floor_log_def round_half_even_def floorlog_eval signed_def Let_def
  floor_rat_numeral_div floor_rat_one_div ceiling_rat_numeral_div ceiling_rat_one_div
  py_sub_def py_ne_def

lemmas text_eval =
  rstrip_def startswith_def replace_char_def is_digit_def digit_val_def digits_val_def
  dec_digits_eval zfill_def is_space_def strip_def to_lower_def parse_exponent_def
  parse_number_def py_float_def sign_str_def sci_digits_def fmt_exp_def strip_zeros_def
  format_number_def error_text_def replicate_numeral_eval

text \<open>Evaluate the scrutinee of a \<open>case\<close> or \<open>let\<close> before its branches.\<close>

lemmas eval_cong =
  option.case_cong_weak prod.case_cong_weak sum.case_cong_weak event.case_cong_weak
  let_weak_cong

lemmas calc_eval =
  update_display_def reset_all_def init_def set_current_def begin_entry_def
  append_digit_def input_dot_def toggle_sign_def percent_def clear_entry_or_all_def
  backspace_def apply_operator_def float_or_zero_def set_operator_def equals_def

section \<open>What the display refresh and \<^verbatim>\<open>_set_current\<close> leave alone\<close>

lemma acc_update_display [simp]: "acc (update_display s) = acc s"
  and current_update_display [simp]: "current (update_display s) = current s"
  and operator_update_display [simp]: "operator (update_display s) = operator s"
  and last_operator_update_display [simp]:
    "last_operator (update_display s) = last_operator s"
  and last_operand_update_display [simp]: "last_operand (update_display s) = last_operand s"
  and just_evaluated_update_display [simp]:
    "just_evaluated (update_display s) = just_evaluated s"
  and awaiting_operand_update_display [simp]:
    "awaiting_operand (update_display s) = awaiting_operand s"
  and has_input_update_display [simp]: "has_input (update_display s) = has_input s"
  by (simp_all add: update_display_def Let_def)

lemma acc_set_current [simp]: "acc (set_current t s) = acc s"
  and current_set_current [simp]: "current (set_current t s) = t"
  and operator_set_current [simp]: "operator (set_current t s) = operator s"
  and last_operator_set_current [simp]: "last_operator (set_current t s) = last_operator s"
  and last_operand_set_current [simp]: "last_operand (set_current t s) = last_operand s"
  and just_evaluated_set_current [simp]:
    "just_evaluated (set_current t s) = just_evaluated s"
  and awaiting_operand_set_current [simp]:
    "awaiting_operand (set_current t s) = awaiting_operand s"
  and has_input_set_current [simp]: "has_input (set_current t s) = (t \<noteq> ''0'')"
  by (simp_all add: set_current_def)

section \<open>Runs of the examples\<close>

lemma run_2_plus_3:
  "run [Digit CHR ''2'', SetOperator ''+'', Digit CHR ''3''] init =
   Inr \<lparr>acc = Fin False 2, current = ''3'', operator = Some ''+'', last_operator = None,
        last_operand = None, just_evaluated = False, awaiting_operand = False,
        has_input = True, btn_ac = ''C'', display_var = ''2 + 3''\<rparr>"
  by (simp add: calc_eval text_eval float_eval cong: eval_cong)

lemma run_2_plus_3_times:
  "run [Digit CHR ''2'', SetOperator ''+'', Digit CHR ''3'', SetOperator ''*''] init =
   Inr \<lparr>acc = Fin False 5, current = ''3'', operator = Some ''*'', last_operator = None,
        last_operand = None, just_evaluated = False, awaiting_operand = True,
        has_input = True, btn_ac = ''C'', display_var = ''5 *''\<rparr>"
  by (simp add: calc_eval text_eval float_eval cong: eval_cong)

lemma run_2_plus_3_times_4_equals:
  "run [Digit CHR ''2'', SetOperator ''+'', Digit CHR ''3'', SetOperator ''*'',
        Digit CHR ''4'', Equals] init =
   Inr \<lparr>acc = Fin False 5, current = ''20'', operator = None, last_operator = Some ''*'',
        last_operand = Some (Fin False 4), just_evaluated = True, awaiting_operand = False,
        has_input = True, btn_ac = ''C'', display_var = ''20''\<rparr>"
  by (simp add: calc_eval text_eval float_eval cong: eval_cong)

lemma run_2_plus_3_equals:
  "run [Digit CHR ''2'', SetOperator ''+'', Digit CHR ''3'', Equals] init =
   Inr \<lparr>acc = Fin False 2, current = ''5'', operator = None, last_operator = Some ''+'',
        last_operand = Some (Fin False 3), just_evaluated = True, awaiting_operand = False,
        has_input = True, btn_ac = ''C'', display_var = ''5''\<rparr>"
  by (simp add: calc_eval text_eval float_eval cong: eval_cong)

lemma run_5_plus_3_equals:
  "run [Digit CHR ''5'', SetOperator ''+'', Digit CHR ''3'', Equals] init =
   Inr \<lparr>acc = Fin False 5, current = ''8'', operator = None, last_operator = Some ''+'',
        last_operand = Some (Fin False 3), just_evaluated = True, awaiting_operand = False,
        has_input = True, btn_ac = ''C'', display_var = ''8''\<rparr>"
  by (simp add: calc_eval text_eval float_eval cong: eval_cong)

lemma run_5_plus_3_equals_equals:
  "run [Digit CHR ''5'', SetOperator ''+'', Digit CHR ''3'', Equals, Equals] init =
   Inr \<lparr>acc = Fin False 5, current = ''11'', operator = None, last_operator = Some ''+'',
        last_operand = Some (Fin False 3), just_evaluated = True, awaiting_operand = False,
        has_input = True, btn_ac = ''C'', display_var = ''11''\<rparr>"
  by (simp add: calc_eval text_eval float_eval cong: eval_cong)

lemma run_5_div_0_equals:
  "run [Digit CHR ''5'', SetOperator ''/'', Digit CHR ''0'', Equals] init =
   Inr \<lparr>acc = Fin False 5, current = error_text, operator = None, last_operator = Some ''/'',
        last_operand = Some (Fin False 0), just_evaluated = True, awaiting_operand = False,
        has_input = True, btn_ac = ''C'', display_var = error_text\<rparr>"
  by (simp add: calc_eval text_eval float_eval cong: eval_cong)

section \<open>Chain evaluation and repeated equals\<close>

text \<open>
  C1. Whenever an operator is pending, \<^verbatim>\<open>set_operator\<close> first folds it: the accumulator
  becomes \<^verbatim>\<open>_apply_operator\<close> of the accumulator, the number read from the current
  input (zero when it does not parse) and the pending operator; then the new operator
  is recorded and \<^verbatim>\<open>awaiting_operand\<close> is set, the current input staying as it was.
  The keys 2, +, 3, * leave the accumulator 5, and the keys 2, +, 3, *, 4, = leave the
  result 20.
\<close>

theorem set_operator_folds_pending:
  "(\<forall>s pending op.
      operator s = Some pending \<longrightarrow>
        acc (set_operator op s) = apply_operator (acc s) (float_or_zero (current s)) pending
        \<and> operator (set_operator op s) = Some op
        \<and> awaiting_operand (set_operator op s)
        \<and> current (set_operator op s) = current s)
   \<and> run [Digit CHR ''2'', SetOperator ''+'', Digit CHR ''3'', SetOperator ''*''] init =
       Inr \<lparr>acc = Fin False 5, current = ''3'', operator = Some ''*'', last_operator = None,
            last_operand = None, just_evaluated = False, awaiting_operand = True,
            has_input = True, btn_ac = ''C'', display_var = ''5 *''\<rparr>
   \<and> run [Digit CHR ''2'', SetOperator ''+'', Digit CHR ''3'', SetOperator ''*'',
           Digit CHR ''4'', Equals] init =
       Inr \<lparr>acc = Fin False 5, current = ''20'', operator = None,
            last_operator = Some ''*'', last_operand = Some (Fin False 4),
            just_evaluated = True, awaiting_operand = False, has_input = True,
            btn_ac = ''C'', display_var = ''20''\<rparr>"
proof (intro conjI allI impI)
  fix s :: calc and pending op :: string
  assume pend: "operator s = Some pending"
  show "acc (set_operator op s) = apply_operator (acc s) (float_or_zero (current s)) pending"
    using pend by (simp add: set_operator_def Let_def)
  show "operator (set_operator op s) = Some op"
    by (simp add: set_operator_def Let_def)
  show "awaiting_operand (set_operator op s)"
    by (simp add: set_operator_def Let_def)
  show "current (set_operator op s) = current s"
    by (simp add: set_operator_def Let_def split: option.split)
qed (rule run_2_plus_3_times, rule run_2_plus_3_times_4_equals)

theorem set_operator_folds_pending_witness:
  "operator \<lparr>acc = Fin False 2, current = ''3'', operator = Some ''+'', last_operator = None,
        last_operand = None, just_evaluated = False, awaiting_operand = False,
        has_input = True, btn_ac = ''C'', display_var = ''2 + 3''\<rparr> = Some ''+''
   \<and> acc (set_operator ''*''
        \<lparr>acc = Fin False 2, current = ''3'', operator = Some ''+'', last_operator = None,
         last_operand = None, just_evaluated = False, awaiting_operand = False,
         has_input = True, btn_ac = ''C'', display_var = ''2 + 3''\<rparr>) = Fin False 5"
  using set_operator_folds_pending
  by (simp add: apply_operator_def float_or_zero_def text_eval float_eval cong: eval_cong)

text \<open>Only \<^verbatim>\<open>equals\<close> with a pending operator gives the memory of the last operation a
  new value; every other handler keeps it or clears it.\<close>

lemma percent_last_pair:
  "percent s = Inr s' \<Longrightarrow> last_operator s' = last_operator s \<and> last_operand s' = last_operand s"
  by (auto simp: percent_def split: option.splits)

lemma begin_entry_last_pair:
  "(last_operator (begin_entry s) = None \<and> last_operand (begin_entry s) = None)
   \<or> (last_operator (begin_entry s) = last_operator s
       \<and> last_operand (begin_entry s) = last_operand s)"
  by (simp add: begin_entry_def reset_all_def Let_def)

lemma append_digit_last_pair:
  "last_operator (append_digit d s) = last_operator (begin_entry s)
   \<and> last_operand (append_digit d s) = last_operand (begin_entry s)"
  by (simp add: append_digit_def Let_def)

lemma input_dot_last_pair:
  "last_operator (input_dot s) = last_operator (begin_entry s)
   \<and> last_operand (input_dot s) = last_operand (begin_entry s)"
  by (simp add: input_dot_def Let_def)

lemma toggle_sign_last_pair:
  "last_operator (toggle_sign s) = last_operator s
   \<and> last_operand (toggle_sign s) = last_operand s"
  by (simp add: toggle_sign_def)

lemma backspace_last_pair:
  "last_operator (backspace s) = last_operator s
   \<and> last_operand (backspace s) = last_operand s"
  by (simp add: backspace_def Let_def)

lemma set_operator_last_pair:
  "last_operator (set_operator op s) = None \<and> last_operand (set_operator op s) = None"
  by (simp add: set_operator_def Let_def)

lemma clear_last_pair:
  "(last_operator (clear_entry_or_all s) = None \<and> last_operand (clear_entry_or_all s) = None)
   \<or> (last_operator (clear_entry_or_all s) = last_operator s
       \<and> last_operand (clear_entry_or_all s) = last_operand s)"
  by (simp add: clear_entry_or_all_def reset_all_def Let_def)

lemma equals_last_pair:
  "operator s = None \<Longrightarrow>
     last_operator (equals s) = last_operator s \<and> last_operand (equals s) = last_operand s"
  by (simp add: equals_def Let_def)

lemma step_last_pair:
  assumes "step e s = Inr s'"
  shows "(last_operator s' = None \<and> last_operand s' = None)
     \<or> (last_operator s' = last_operator s \<and> last_operand s' = last_operand s)
     \<or> (e = Equals \<and> operator s \<noteq> None)"
proof (cases e)
  case (Digit d)
  with assms have "s' = append_digit [d] s" by simp
  then show ?thesis
    using begin_entry_last_pair [of s] append_digit_last_pair [of "[d]" s] by auto
next
  case Point
  with assms have "s' = input_dot s" by simp
  then show ?thesis
    using begin_entry_last_pair [of s] input_dot_last_pair [of s] by auto
next
  case ToggleSign
  with assms have "s' = toggle_sign s" by simp
  then show ?thesis using toggle_sign_last_pair [of s] by simp
next
  case Percent
  with assms show ?thesis using percent_last_pair [of s s'] by simp
next
  case (SetOperator op)
  with assms have "s' = set_operator op s" by simp
  then show ?thesis using set_operator_last_pair [of op s] by simp
next
  case Equals
  with assms have "s' = equals s" by simp
  then show ?thesis using equals_last_pair [of s] Equals by auto
next
  case ClearOrReset
  with assms have "s' = clear_entry_or_all s" by simp
  then show ?thesis using clear_last_pair [of s] by auto
next
  case Backspace
  with assms have "s' = backspace s" by simp
  then show ?thesis using backspace_last_pair [of s] by simp
qed

text \<open>
  C2. With no pending operator and both \<^verbatim>\<open>last_operator\<close> and \<^verbatim>\<open>last_operand\<close> set,
  \<^verbatim>\<open>equals\<close> shows \<^verbatim>\<open>_apply_operator\<close> of the number read from the current input, the
  last operand and the last operator; with no pending operator and one of the two
  unset, it shows the number read from the current input. A step changes the memory
  to a new value that is not empty only if it is \<^verbatim>\<open>equals\<close> with a pending operator. The
  keys 5, +, 3, = show 8, and one more = shows 11.
\<close>

theorem equals_repeats_last_operation:
  "(\<forall>s lop lod.
      operator s = None \<and> last_operator s = Some lop \<and> last_operand s = Some lod \<longrightarrow>
        current (equals s) = format_number (apply_operator (float_or_zero (current s)) lod lop)
        \<and> just_evaluated (equals s))
   \<and> (\<forall>s. operator s = None \<and> (last_operator s = None \<or> last_operand s = None) \<longrightarrow>
        current (equals s) = format_number (float_or_zero (current s))
        \<and> just_evaluated (equals s))
   \<and> (\<forall>e s s'. step e s = Inr s' \<longrightarrow>
        (last_operator s' = None \<and> last_operand s' = None)
        \<or> (last_operator s' = last_operator s \<and> last_operand s' = last_operand s)
        \<or> (e = Equals \<and> operator s \<noteq> None))
   \<and> run [Digit CHR ''5'', SetOperator ''+'', Digit CHR ''3'', Equals] init =
       Inr \<lparr>acc = Fin False 5, current = ''8'', operator = None, last_operator = Some ''+'',
            last_operand = Some (Fin False 3), just_evaluated = True,
            awaiting_operand = False, has_input = True, btn_ac = ''C'',
            display_var = ''8''\<rparr>
   \<and> run [Digit CHR ''5'', SetOperator ''+'', Digit CHR ''3'', Equals, Equals] init =
       Inr \<lparr>acc = Fin False 5, current = ''11'', operator = None,
            last_operator = Some ''+'', last_operand = Some (Fin False 3),
            just_evaluated = True, awaiting_operand = False, has_input = True,
            btn_ac = ''C'', display_var = ''11''\<rparr>"
proof (intro conjI allI impI)
  fix s :: calc and lop :: string and lod :: float64
  assume h: "operator s = None \<and> last_operator s = Some lop \<and> last_operand s = Some lod"
  then show "current (equals s)
      = format_number (apply_operator (float_or_zero (current s)) lod lop)"
    by (simp add: equals_def Let_def)
  from h show "just_evaluated (equals s)"
    by (simp add: equals_def Let_def)
next
  fix s :: calc
  assume h: "operator s = None \<and> (last_operator s = None \<or> last_operand s = None)"
  then show "current (equals s) = format_number (float_or_zero (current s))"
    by (auto simp: equals_def Let_def split: option.splits)
  from h show "just_evaluated (equals s)"
    by (auto simp: equals_def Let_def split: option.splits)
next
  fix e s s'
  assume "step e s = Inr s'"
  then show "(last_operator s' = None \<and> last_operand s' = None)
     \<or> (last_operator s' = last_operator s \<and> last_operand s' = last_operand s)
     \<or> (e = Equals \<and> operator s \<noteq> None)"
    by (rule step_last_pair)
qed (rule run_5_plus_3_equals, rule run_5_plus_3_equals_equals)

theorem equals_repeats_last_operation_witness:
  "current (equals \<lparr>acc = Fin False 5, current = ''8'', operator = None,
        last_operator = Some ''+'', last_operand = Some (Fin False 3), just_evaluated = True,
        awaiting_operand = False, has_input = True, btn_ac = ''C'',
        display_var = ''8''\<rparr>) = ''11''
   \<and> current (equals init) = ''0''
   \<and> last_operator (equals init) = None"
proof -
  let ?s = "\<lparr>acc = Fin False 5, current = ''8'', operator = None,
        last_operator = Some ''+'', last_operand = Some (Fin False 3), just_evaluated = True,
        awaiting_operand = False, has_input = True, btn_ac = ''C'',
        display_var = ''8''\<rparr>"
  note main = equals_repeats_last_operation
  have a: "operator ?s = None \<and> last_operator ?s = Some ''+''
      \<and> last_operand ?s = Some (Fin False 3)"
    by simp
  from main a have "current (equals ?s)
      = format_number (apply_operator (float_or_zero (current ?s)) (Fin False 3) ''+'')"
    by blast
  also have "\<dots> = ''11''"
    by (simp add: apply_operator_def float_or_zero_def text_eval float_eval cong: eval_cong)
  finally have w1: "current (equals ?s) = ''11''" .
  have b: "operator init = None \<and> (last_operator init = None \<or> last_operand init = None)"
    by (simp add: init_def)
  from main b have "current (equals init) = format_number (float_or_zero (current init))"
    by blast
  also have "\<dots> = ''0''"
    by (simp add: init_def float_or_zero_def text_eval float_eval cong: eval_cong)
  finally have w2: "current (equals init) = ''0''" .
  have c: "step Equals init = Inr (equals init)"
    by simp
  from main c have "(last_operator (equals init) = None \<and> last_operand (equals init) = None)
     \<or> (last_operator (equals init) = last_operator init
         \<and> last_operand (equals init) = last_operand init)
     \<or> (Equals = Equals \<and> operator init \<noteq> None)"
    by blast
  then have w3: "last_operator (equals init) = None"
    by (auto simp: init_def)
  from w1 w2 w3 show ?thesis by simp
qed



section \<open>Division by zero\<close>

text \<open>
  C4. Dividing any number by a zero of either sign in \<^verbatim>\<open>_apply_operator\<close> gives positive
  infinity and raises nothing; \<^verbatim>\<open>_format_number\<close> turns positive infinity into the error
  message; and the keys 5, /, 0, = leave the error message as the current input.
\<close>

theorem division_by_zero_is_error:
  "(\<forall>a sg. apply_operator a (Fin sg 0) ''/'' = Inf False)
   \<and> format_number (Inf False) = error_text
   \<and> run [Digit CHR ''5'', SetOperator ''/'', Digit CHR ''0'', Equals] init =
       Inr \<lparr>acc = Fin False 5, current = error_text, operator = None,
            last_operator = Some ''/'', last_operand = Some (Fin False 0),
            just_evaluated = True, awaiting_operand = False, has_input = True,
            btn_ac = ''C'', display_var = error_text\<rparr>"
proof (intro conjI allI)
  fix a sg
  show "apply_operator a (Fin sg 0) ''/'' = Inf False"
    by (simp add: apply_operator_def)
  show "format_number (Inf False) = error_text"
    by (simp add: format_number_def)
qed (rule run_5_div_0_equals)

section \<open>What \<^verbatim>\<open>equals\<close> leaves alone\<close>

text \<open>
  C10. \<^verbatim>\<open>equals\<close> never changes the accumulator: the result goes to the current input
  only. After the keys 2, +, 3, = the accumulator is still 2 and the current input
  is 5.
\<close>

theorem equals_keeps_acc:
  "(\<forall>s. acc (equals s) = acc s)
   \<and> run [Digit CHR ''2'', SetOperator ''+'', Digit CHR ''3'', Equals] init =
       Inr \<lparr>acc = Fin False 2, current = ''5'', operator = None, last_operator = Some ''+'',
            last_operand = Some (Fin False 3), just_evaluated = True,
            awaiting_operand = False, has_input = True, btn_ac = ''C'',
            display_var = ''5''\<rparr>"
proof (intro conjI allI)
  fix s
  show "acc (equals s) = acc s"
    by (simp add: equals_def Let_def split: option.split prod.split)
qed (rule run_2_plus_3_equals)


section \<open>Percent\<close>

text \<open>A text that \<^verbatim>\<open>float\<close> accepts holds no comma, so that replacing commas by points,
  as \<^verbatim>\<open>percent\<close> does before it parses, changes nothing in it.\<close>

lemma mem_dropWhile: "x \<in> set xs \<Longrightarrow> \<not> P x \<Longrightarrow> x \<in> set (dropWhile P xs)"
  by (induction xs) auto

lemma mem_strip: "x \<in> set xs \<Longrightarrow> \<not> is_space x \<Longrightarrow> x \<in> set (strip xs)"
  by (simp add: strip_def mem_dropWhile)

lemma parse_exponent_chars:
  assumes "parse_exponent s = Some x" and "c \<in> set s"
  shows "is_digit c \<or> c = CHR ''+'' \<or> c = CHR ''-''"
proof -
  define ds where "ds = (if startswith s ''-'' \<or> startswith s ''+'' then tl s else s)"
  have "parse_exponent s =
      (if ds \<noteq> [] \<and> list_all is_digit ds
       then Some (if startswith s ''-'' then - int (digits_val ds) else int (digits_val ds))
       else None)"
    unfolding parse_exponent_def Let_def ds_def ..
  with assms(1) have ds: "list_all is_digit ds"
    by (simp split: if_splits)
  show ?thesis
  proof (cases "startswith s ''-'' \<or> startswith s ''+''")
    case True
    then obtain h t where s: "s = h # t" and h: "h = CHR ''-'' \<or> h = CHR ''+''"
      by (cases s) (auto simp: startswith_def)
    with ds True have "list_all is_digit t" by (simp add: ds_def)
    with assms(2) s h show ?thesis by (auto simp: list_all_iff)
  next
    case False
    with ds have "list_all is_digit s" by (simp add: ds_def)
    with assms(2) show ?thesis by (auto simp: list_all_iff)
  qed
qed

lemma parse_number_chars:
  assumes "parse_number s = Some q" and "c \<in> set s"
  shows "is_digit c \<or> c \<in> set ''.eE+-''"
proof -
  define ip where "ip = takeWhile is_digit s"
  define r1 where "r1 = dropWhile is_digit s"
  define fp where "fp = (if startswith r1 ''.'' then takeWhile is_digit (tl r1) else [])"
  define r2 where "r2 = (if startswith r1 ''.'' then dropWhile is_digit (tl r1) else r1)"
  have s: "s = ip @ r1" by (simp add: ip_def r1_def)
  have r1: "set r1 \<subseteq> set ''.'' \<union> set fp \<union> set r2"
  proof (cases "startswith r1 ''.''")
    case True
    then obtain t where t: "r1 = CHR ''.'' # t"
      by (cases r1) (auto simp: startswith_def)
    have "t = takeWhile is_digit t @ dropWhile is_digit t" by simp
    then have "set t = set (takeWhile is_digit t) \<union> set (dropWhile is_digit t)"
      by (metis set_append)
    with True t show ?thesis by (simp add: fp_def r2_def)
  next
    case False
    then show ?thesis by (auto simp: r2_def)
  qed
  have ip: "\<forall>x \<in> set ip. is_digit x" by (auto simp: ip_def dest: set_takeWhileD)
  have fp: "\<forall>x \<in> set fp. is_digit x" by (auto simp: fp_def dest: set_takeWhileD)
  have pn: "parse_number s =
      (if ip = [] \<and> fp = [] then None
       else if r2 = [] then Some (of_nat (digits_val (ip @ fp)) * 10 powi (- int (length fp)))
       else if startswith r2 ''e'' \<or> startswith r2 ''E''
       then (case parse_exponent (tl r2) of
               None \<Rightarrow> None
             | Some x \<Rightarrow> Some (of_nat (digits_val (ip @ fp)) * 10 powi (x - int (length fp))))
       else None)"
    unfolding parse_number_def Let_def ip_def r1_def fp_def r2_def ..
  have r2: "\<forall>x \<in> set r2. is_digit x \<or> x \<in> set ''.eE+-''"
  proof (cases "r2 = []")
    case True
    then show ?thesis by simp
  next
    case False
    with assms(1) pn have e: "startswith r2 ''e'' \<or> startswith r2 ''E''"
      and "parse_exponent (tl r2) \<noteq> None"
      by (auto split: if_splits option.splits)
    then obtain x where x: "parse_exponent (tl r2) = Some x" by auto
    from e False obtain h t where ht: "r2 = h # t" and h: "h = CHR ''e'' \<or> h = CHR ''E''"
      by (cases r2) (auto simp: startswith_def)
    from x ht have "\<forall>y \<in> set t. is_digit y \<or> y = CHR ''+'' \<or> y = CHR ''-''"
      using parse_exponent_chars [of t x] by auto
    with ht h show ?thesis by auto
  qed
  from assms(2) s have "c \<in> set ip \<or> c \<in> set r1" by (metis Un_iff set_append)
  with r1 ip fp r2 show ?thesis by auto
qed

lemma to_lower_comma: "to_lower CHR '','' = CHR '',''"
  by (simp add: to_lower_def)

lemma py_float_no_comma:
  assumes "py_float t = Some v"
  shows "CHR '','' \<notin> set t"
proof
  assume c: "CHR '','' \<in> set t"
  define s where "s = strip (filter (\<lambda>c. c \<noteq> CHR ''_'') t)"
  define body where "body = (if startswith s ''-'' \<or> startswith s ''+'' then tl s else s)"
  from c have "CHR '','' \<in> set (filter (\<lambda>c. c \<noteq> CHR ''_'') t)" by simp
  then have cs: "CHR '','' \<in> set s"
    unfolding s_def by (rule mem_strip) (simp add: is_space_def)
  have cb: "CHR '','' \<in> set body"
  proof (cases "startswith s ''-'' \<or> startswith s ''+''")
    case True
    then obtain h u where hu: "s = h # u" and "h = CHR ''-'' \<or> h = CHR ''+''"
      by (cases s) (auto simp: startswith_def)
    with cs have "CHR '','' \<in> set u" by auto
    with True hu show ?thesis by (simp add: body_def)
  next
    case False
    with cs show ?thesis by (simp add: body_def)
  qed
  then have "to_lower CHR '','' \<in> to_lower ` set body" by (rule imageI)
  then have low: "CHR '','' \<in> set (map to_lower body)" by (simp add: to_lower_comma)
  have n1: "map to_lower body \<noteq> ''inf''" using low by auto
  have n2: "map to_lower body \<noteq> ''infinity''" using low by auto
  have n3: "map to_lower body \<noteq> ''nan''" using low by auto
  have "py_float t =
      (if CHR ''_'' \<in> set t \<and> \<not> underscores_ok (CHR 0x00) t then None
       else if map to_lower body = ''inf'' \<or> map to_lower body = ''infinity''
            then Some (Inf (startswith s ''-''))
            else if map to_lower body = ''nan'' then Some NaN
            else case parse_number body of
                   None \<Rightarrow> None
                 | Some q \<Rightarrow> Some (round64 (startswith s ''-'') q))"
    unfolding py_float_def Let_def s_def body_def ..
  with assms n1 n2 n3 have "parse_number body \<noteq> None"
    by (auto split: if_splits option.splits)
  then obtain q where q: "parse_number body = Some q" by auto
  from q cb have "is_digit CHR '','' \<or> CHR '','' \<in> set ''.eE+-''"
    by (rule parse_number_chars)
  then show False by (simp add: is_digit_def)
qed

lemma replace_char_absent: "old \<notin> set s \<Longrightarrow> replace_char s old new = s"
  by (induction s) (auto simp: replace_char_def)

lemma run_200_percent:
  "run [Digit CHR ''2'', Digit CHR ''0'', Digit CHR ''0'', Percent] init =
   Inr \<lparr>acc = Fin False 0, current = ''2'', operator = None, last_operator = None,
        last_operand = None, just_evaluated = False, awaiting_operand = False,
        has_input = True, btn_ac = ''C'', display_var = ''2''\<rparr>"
  by (simp add: calc_eval text_eval float_eval cong: eval_cong)

lemma run_100_plus_50:
  "run [Digit CHR ''1'', Digit CHR ''0'', Digit CHR ''0'', SetOperator ''+'',
        Digit CHR ''5'', Digit CHR ''0''] init =
   Inr \<lparr>acc = Fin False 100, current = ''50'', operator = Some ''+'', last_operator = None,
        last_operand = None, just_evaluated = False, awaiting_operand = False,
        has_input = True, btn_ac = ''C'', display_var = ''100 + 50''\<rparr>"
  by (simp add: calc_eval text_eval float_eval cong: eval_cong)

lemma run_100_plus_50_percent:
  "run [Digit CHR ''1'', Digit CHR ''0'', Digit CHR ''0'', SetOperator ''+'',
        Digit CHR ''5'', Digit CHR ''0'', Percent] init =
   Inr \<lparr>acc = Fin False 100, current = ''50'', operator = Some ''+'', last_operator = None,
        last_operand = None, just_evaluated = False, awaiting_operand = False,
        has_input = True, btn_ac = ''C'', display_var = ''100 + 50''\<rparr>"
  by (simp add: calc_eval text_eval float_eval cong: eval_cong)

lemma run_100_plus_50_percent_equals:
  "run [Digit CHR ''1'', Digit CHR ''0'', Digit CHR ''0'', SetOperator ''+'',
        Digit CHR ''5'', Digit CHR ''0'', Percent, Equals] init =
   Inr \<lparr>acc = Fin False 100, current = ''150'', operator = None, last_operator = Some ''+'',
        last_operand = Some (Fin False 50), just_evaluated = True, awaiting_operand = False,
        has_input = True, btn_ac = ''C'', display_var = ''150''\<rparr>"
  by (simp add: calc_eval text_eval float_eval cong: eval_cong)

lemma py_truediv_100: "\<exists>c. py_truediv cur (Fin False 100) = Some c"
  by (cases cur) simp_all

lemma percent_parsed:
  assumes "py_float (replace_char (current s) CHR '','' CHR ''.'') = Some cur"
  shows "\<exists>c s'. py_truediv cur (Fin False 100) = Some c \<and> percent s = Inr s'
      \<and> current s' = format_number (if operator s = None then c else py_mul (acc s) c)"
proof -
  from py_truediv_100 obtain c where c: "py_truediv cur (Fin False 100) = Some c" ..
  with assms have "percent s = Inr (set_current
      (format_number (if operator s = None then c else py_mul (acc s) c)) s)"
    by (simp add: percent_def)
  with c show ?thesis by simp
qed

lemma percent_frame:
  assumes "percent s = Inr s'"
  shows "operator s' = operator s \<and> acc s' = acc s
      \<and> awaiting_operand s' = awaiting_operand s
      \<and> last_operator s' = last_operator s \<and> last_operand s' = last_operand s"
  using assms by (auto simp: percent_def split: option.splits)

text \<open>
  C7. When the current input parses as a number, \<^verbatim>\<open>percent\<close> raises nothing and makes
  the current input the formatted hundredth of that number when no operator is
  pending, and the formatted product of the accumulator and that hundredth when one
  is; the same holds for the text that parses once its commas are replaced by points.
  In every case the operator, the accumulator, \<^verbatim>\<open>awaiting_operand\<close>, \<^verbatim>\<open>last_operator\<close> and
  \<^verbatim>\<open>last_operand\<close> are unchanged. The keys 2, 0, 0, % show 2; the keys 1, 0, 0, +, 5,
  0, % make the current input 50, and = then gives 150.
\<close>

theorem percent_of_current_or_accumulator:
  "(\<forall>s cur. py_float (current s) = Some cur \<longrightarrow>
      (\<exists>c s'. py_truediv cur (Fin False 100) = Some c \<and> percent s = Inr s'
         \<and> current s' = format_number (if operator s = None then c else py_mul (acc s) c)))
   \<and> (\<forall>s cur. py_float (replace_char (current s) CHR '','' CHR ''.'') = Some cur \<longrightarrow>
      (\<exists>c s'. py_truediv cur (Fin False 100) = Some c \<and> percent s = Inr s'
         \<and> current s' = format_number (if operator s = None then c else py_mul (acc s) c)))
   \<and> (\<forall>s s'. percent s = Inr s' \<longrightarrow>
        operator s' = operator s \<and> acc s' = acc s
        \<and> awaiting_operand s' = awaiting_operand s
        \<and> last_operator s' = last_operator s \<and> last_operand s' = last_operand s)
   \<and> run [Digit CHR ''2'', Digit CHR ''0'', Digit CHR ''0'', Percent] init =
       Inr \<lparr>acc = Fin False 0, current = ''2'', operator = None, last_operator = None,
            last_operand = None, just_evaluated = False, awaiting_operand = False,
            has_input = True, btn_ac = ''C'', display_var = ''2''\<rparr>
   \<and> run [Digit CHR ''1'', Digit CHR ''0'', Digit CHR ''0'', SetOperator ''+'',
           Digit CHR ''5'', Digit CHR ''0'', Percent] init =
       Inr \<lparr>acc = Fin False 100, current = ''50'', operator = Some ''+'',
            last_operator = None, last_operand = None, just_evaluated = False,
            awaiting_operand = False, has_input = True, btn_ac = ''C'',
            display_var = ''100 + 50''\<rparr>
   \<and> run [Digit CHR ''1'', Digit CHR ''0'', Digit CHR ''0'', SetOperator ''+'',
           Digit CHR ''5'', Digit CHR ''0'', Percent, Equals] init =
       Inr \<lparr>acc = Fin False 100, current = ''150'', operator = None,
            last_operator = Some ''+'', last_operand = Some (Fin False 50),
            just_evaluated = True, awaiting_operand = False, has_input = True,
            btn_ac = ''C'', display_var = ''150''\<rparr>"
proof (intro conjI allI impI)
  fix s :: calc and cur :: float64
  assume p: "py_float (current s) = Some cur"
  then have "CHR '','' \<notin> set (current s)" by (rule py_float_no_comma)
  then have "replace_char (current s) CHR '','' CHR ''.'' = current s"
    by (rule replace_char_absent)
  with p have "py_float (replace_char (current s) CHR '','' CHR ''.'') = Some cur" by simp
  then show "\<exists>c s'. py_truediv cur (Fin False 100) = Some c \<and> percent s = Inr s'
      \<and> current s' = format_number (if operator s = None then c else py_mul (acc s) c)"
    by (rule percent_parsed)
next
  fix s :: calc and cur :: float64
  assume "py_float (replace_char (current s) CHR '','' CHR ''.'') = Some cur"
  then show "\<exists>c s'. py_truediv cur (Fin False 100) = Some c \<and> percent s = Inr s'
      \<and> current s' = format_number (if operator s = None then c else py_mul (acc s) c)"
    by (rule percent_parsed)
next
  fix s s' :: calc
  assume "percent s = Inr s'"
  then have f: "operator s' = operator s \<and> acc s' = acc s
      \<and> awaiting_operand s' = awaiting_operand s
      \<and> last_operator s' = last_operator s \<and> last_operand s' = last_operand s"
    by (rule percent_frame)
  from f show "operator s' = operator s" by simp
  from f show "acc s' = acc s" by simp
  from f show "awaiting_operand s' = awaiting_operand s" by simp
  from f show "last_operator s' = last_operator s" by simp
  from f show "last_operand s' = last_operand s" by simp
qed (rule run_200_percent, rule run_100_plus_50_percent, rule run_100_plus_50_percent_equals)

theorem percent_of_current_or_accumulator_witness:
  "py_float (current \<lparr>acc = Fin False 100, current = ''50'', operator = Some ''+'',
        last_operator = None, last_operand = None, just_evaluated = False,
        awaiting_operand = False, has_input = True, btn_ac = ''C'',
        display_var = ''100 + 50''\<rparr>) = Some (Fin False 50)
   \<and> (\<exists>s'. percent \<lparr>acc = Fin False 100, current = ''50'', operator = Some ''+'',
        last_operator = None, last_operand = None, just_evaluated = False,
        awaiting_operand = False, has_input = True, btn_ac = ''C'',
        display_var = ''100 + 50''\<rparr> = Inr s' \<and> current s' = ''50'')"
proof -
  let ?s = "\<lparr>acc = Fin False 100, current = ''50'', operator = Some ''+'',
        last_operator = None, last_operand = None, just_evaluated = False,
        awaiting_operand = False, has_input = True, btn_ac = ''C'',
        display_var = ''100 + 50''\<rparr>"
  note main = percent_of_current_or_accumulator
  have p: "py_float (current ?s) = Some (Fin False 50)"
    by (simp add: text_eval float_eval cong: eval_cong)
  from main p obtain c s' where c: "py_truediv (Fin False 50) (Fin False 100) = Some c"
    and r: "percent ?s = Inr s'"
    and t: "current s' = format_number (if operator ?s = None then c else py_mul (acc ?s) c)"
    by blast
  from c have "c = Fin False (1 / 2)"
    by (simp add: float_eval cong: eval_cong)
  with t have "current s' = format_number (py_mul (Fin False 100) (Fin False (1 / 2)))"
    by simp
  also have "\<dots> = ''50''"
    by (simp add: text_eval float_eval cong: eval_cong)
  finally have "current s' = ''50''" .
  with r p show ?thesis by auto
qed

section \<open>Clearing\<close>

text \<open>
  C8. When \<^verbatim>\<open>has_input\<close> or \<^verbatim>\<open>just_evaluated\<close> holds, \<^verbatim>\<open>clear_entry_or_all\<close> makes the
  current input \<^verbatim>\<open>"0"\<close> and clears both flags, and leaves the operator, the
  accumulator, \<^verbatim>\<open>last_operator\<close>, \<^verbatim>\<open>last_operand\<close> and \<^verbatim>\<open>awaiting_operand\<close> as they were.
  When neither holds, every attribute gets its initial value, except that the current
  input keeps its text and \<^verbatim>\<open>has_input\<close> says whether that text differs from \<^verbatim>\<open>"0"\<close>.
\<close>

theorem clear_entry_then_all:
  "(\<forall>s. has_input s \<or> just_evaluated s \<longrightarrow>
      current (clear_entry_or_all s) = ''0''
      \<and> \<not> just_evaluated (clear_entry_or_all s)
      \<and> \<not> has_input (clear_entry_or_all s)
      \<and> operator (clear_entry_or_all s) = operator s
      \<and> acc (clear_entry_or_all s) = acc s
      \<and> last_operator (clear_entry_or_all s) = last_operator s
      \<and> last_operand (clear_entry_or_all s) = last_operand s
      \<and> awaiting_operand (clear_entry_or_all s) = awaiting_operand s)
   \<and> (\<forall>s. \<not> has_input s \<and> \<not> just_evaluated s \<longrightarrow>
      current (clear_entry_or_all s) = current s
      \<and> has_input (clear_entry_or_all s) = (current s \<noteq> ''0'')
      \<and> acc (clear_entry_or_all s) = acc init
      \<and> operator (clear_entry_or_all s) = operator init
      \<and> last_operator (clear_entry_or_all s) = last_operator init
      \<and> last_operand (clear_entry_or_all s) = last_operand init
      \<and> just_evaluated (clear_entry_or_all s) = just_evaluated init
      \<and> awaiting_operand (clear_entry_or_all s) = awaiting_operand init)"
  by (simp add: clear_entry_or_all_def reset_all_def init_def Let_def)

theorem clear_entry_then_all_witness:
  "has_input \<lparr>acc = Fin False 7, current = ''12'', operator = Some ''+'',
        last_operator = None, last_operand = None, just_evaluated = False,
        awaiting_operand = False, has_input = True, btn_ac = ''C'',
        display_var = ''7 + 12''\<rparr>
   \<and> clear_entry_or_all \<lparr>acc = Fin False 7, current = ''12'', operator = Some ''+'',
        last_operator = None, last_operand = None, just_evaluated = False,
        awaiting_operand = False, has_input = True, btn_ac = ''C'',
        display_var = ''7 + 12''\<rparr> =
       \<lparr>acc = Fin False 7, current = ''0'', operator = Some ''+'',
        last_operator = None, last_operand = None, just_evaluated = False,
        awaiting_operand = False, has_input = False, btn_ac = ''AC'',
        display_var = ''7 + 0''\<rparr>
   \<and> operator (clear_entry_or_all \<lparr>acc = Fin False 7, current = ''0'',
        operator = Some ''+'', last_operator = None, last_operand = None,
        just_evaluated = False, awaiting_operand = False, has_input = False,
        btn_ac = ''AC'', display_var = ''7 + 0''\<rparr>) = None
   \<and> acc (clear_entry_or_all \<lparr>acc = Fin False 7, current = ''0'',
        operator = Some ''+'', last_operator = None, last_operand = None,
        just_evaluated = False, awaiting_operand = False, has_input = False,
        btn_ac = ''AC'', display_var = ''7 + 0''\<rparr>) = Fin False 0"
proof -
  let ?s = "\<lparr>acc = Fin False 7, current = ''12'', operator = Some ''+'',
        last_operator = None, last_operand = None, just_evaluated = False,
        awaiting_operand = False, has_input = True, btn_ac = ''C'',
        display_var = ''7 + 12''\<rparr>"
  let ?t = "\<lparr>acc = Fin False 7, current = ''0'', operator = Some ''+'',
        last_operator = None, last_operand = None, just_evaluated = False,
        awaiting_operand = False, has_input = False, btn_ac = ''AC'',
        display_var = ''7 + 0''\<rparr>"
  note main = clear_entry_then_all
  have a: "has_input ?s \<or> just_evaluated ?s" by simp
  have b: "\<not> has_input ?t \<and> \<not> just_evaluated ?t" by simp
  from main b have "operator (clear_entry_or_all ?t) = operator init
      \<and> acc (clear_entry_or_all ?t) = acc init" by blast
  then have w: "operator (clear_entry_or_all ?t) = None \<and> acc (clear_entry_or_all ?t) = Fin False 0"
    by (simp add: init_def)
  have e: "clear_entry_or_all ?s = ?t"
    by (simp add: calc_eval text_eval float_eval cong: eval_cong)
  from main a have "current (clear_entry_or_all ?s) = ''0''" by blast
  with e w show ?thesis by simp
qed


section \<open>No handler raises\<close>

lemma py_float_error_text: "py_float error_text = None"
  by (simp add: text_eval float_eval cong: eval_cong)

lemma replace_comma_error_text: "replace_char error_text CHR '','' CHR ''.'' = error_text"
  by (simp add: replace_char_def error_text_def)

lemma percent_total: "\<exists>s'. percent s = Inr s'"
proof (cases "py_float (replace_char (current s) CHR '','' CHR ''.'')")
  case None
  then show ?thesis by (simp add: percent_def)
next
  case (Some cur)
  from py_truediv_100 obtain c where "py_truediv cur (Fin False 100) = Some c" ..
  with Some show ?thesis by (simp add: percent_def)
qed

lemma step_total: "\<exists>s'. step e s = Inr s'"
  by (cases e) (simp_all add: percent_total)

lemma run_total: "\<exists>s'. run es s = Inr s'"
proof (induction es arbitrary: s)
  case Nil
  show ?case by simp
next
  case (Cons e es)
  from step_total obtain s1 where s1: "step e s = Inr s1" ..
  from Cons obtain s2 where "run es s1 = Inr s2" by blast
  with s1 show ?case by simp
qed

text \<open>
  C9, as stated, fails for \<^verbatim>\<open>percent\<close>: after the keys 5, /, 0, = the current input is the
  error message, which \<^verbatim>\<open>float\<close> rejects; \<^verbatim>\<open>percent\<close> then returns at once and the message
  stays, where a value of zero would have given the text \<^verbatim>\<open>"0"\<close>.
\<close>

theorem percent_keeps_unparseable_text_counterexample:
  "run [Digit CHR ''5'', SetOperator ''/'', Digit CHR ''0'', Equals] init =
     Inr \<lparr>acc = Fin False 5, current = error_text, operator = None,
          last_operator = Some ''/'', last_operand = Some (Fin False 0),
          just_evaluated = True, awaiting_operand = False, has_input = True,
          btn_ac = ''C'', display_var = error_text\<rparr>
   \<and> py_float error_text = None
   \<and> percent \<lparr>acc = Fin False 5, current = error_text, operator = None,
          last_operator = Some ''/'', last_operand = Some (Fin False 0),
          just_evaluated = True, awaiting_operand = False, has_input = True,
          btn_ac = ''C'', display_var = error_text\<rparr> =
       Inr \<lparr>acc = Fin False 5, current = error_text, operator = None,
          last_operator = Some ''/'', last_operand = Some (Fin False 0),
          just_evaluated = True, awaiting_operand = False, has_input = True,
          btn_ac = ''C'', display_var = error_text\<rparr>
   \<and> py_truediv (Fin False 0) (Fin False 100) = Some (Fin False 0)
   \<and> format_number (Fin False 0) = ''0''
   \<and> error_text \<noteq> ''0''"
proof (intro conjI)
  show "percent \<lparr>acc = Fin False 5, current = error_text, operator = None,
          last_operator = Some ''/'', last_operand = Some (Fin False 0),
          just_evaluated = True, awaiting_operand = False, has_input = True,
          btn_ac = ''C'', display_var = error_text\<rparr> =
       Inr \<lparr>acc = Fin False 5, current = error_text, operator = None,
          last_operator = Some ''/'', last_operand = Some (Fin False 0),
          just_evaluated = True, awaiting_operand = False, has_input = True,
          btn_ac = ''C'', display_var = error_text\<rparr>"
    by (simp add: percent_def replace_comma_error_text py_float_error_text)
  show "py_truediv (Fin False 0) (Fin False 100) = Some (Fin False 0)"
    by (simp add: float_eval cong: eval_cong)
  show "format_number (Fin False 0) = ''0''"
    by (simp add: text_eval float_eval cong: eval_cong)
  show "error_text \<noteq> ''0''"
    by (simp add: error_text_def)
qed (rule run_5_div_0_equals, rule py_float_error_text)

text \<open>
  C9, amended. Every event handler returns a state in every state, so that no run of
  events raises or stops. When the current input does not parse, \<^verbatim>\<open>set_operator\<close> and
  \<^verbatim>\<open>equals\<close> compute with zero in its place; when it does not parse after its commas
  are replaced by points, \<^verbatim>\<open>percent\<close> leaves the state as it is.
\<close>

theorem handlers_total_zero_default:
  "(\<forall>e s. \<exists>s'. step e s = Inr s')
   \<and> (\<forall>es s. \<exists>s'. run es s = Inr s')
   \<and> (\<forall>s op. py_float (current s) = None \<longrightarrow>
        acc (set_operator op s) =
          (case operator s of
             None \<Rightarrow> Fin False 0
           | Some pending \<Rightarrow> apply_operator (acc s) (Fin False 0) pending))
   \<and> (\<forall>s. py_float (current s) = None \<longrightarrow>
        current (equals s) = format_number
          (case operator s of
             Some op \<Rightarrow> apply_operator (acc s) (Fin False 0) op
           | None \<Rightarrow>
               (case (last_operator s, last_operand s) of
                  (Some lop, Some lod) \<Rightarrow> apply_operator (Fin False 0) lod lop
                | _ \<Rightarrow> Fin False 0)))
   \<and> (\<forall>s. py_float (replace_char (current s) CHR '','' CHR ''.'') = None \<longrightarrow>
        percent s = Inr s)"
proof (intro conjI allI impI)
  fix e and s :: calc
  show "\<exists>s'. step e s = Inr s'" by (rule step_total)
next
  fix es and s :: calc
  show "\<exists>s'. run es s = Inr s'" by (rule run_total)
next
  fix s :: calc and op :: string
  assume "py_float (current s) = None"
  then show "acc (set_operator op s) =
      (case operator s of
         None \<Rightarrow> Fin False 0
       | Some pending \<Rightarrow> apply_operator (acc s) (Fin False 0) pending)"
    by (simp add: set_operator_def float_or_zero_def Let_def split: option.split)
next
  fix s :: calc
  assume "py_float (current s) = None"
  then show "current (equals s) = format_number
      (case operator s of
         Some op \<Rightarrow> apply_operator (acc s) (Fin False 0) op
       | None \<Rightarrow>
           (case (last_operator s, last_operand s) of
              (Some lop, Some lod) \<Rightarrow> apply_operator (Fin False 0) lod lop
            | _ \<Rightarrow> Fin False 0))"
    by (simp add: equals_def float_or_zero_def Let_def split: option.split)
next
  fix s :: calc
  assume "py_float (replace_char (current s) CHR '','' CHR ''.'') = None"
  then show "percent s = Inr s" by (simp add: percent_def)
qed

theorem handlers_total_zero_default_witness:
  "py_float (current \<lparr>acc = Fin False 5, current = error_text, operator = None,
          last_operator = Some ''/'', last_operand = Some (Fin False 0),
          just_evaluated = True, awaiting_operand = False, has_input = True,
          btn_ac = ''C'', display_var = error_text\<rparr>) = None
   \<and> acc (set_operator ''+'' \<lparr>acc = Fin False 5, current = error_text, operator = None,
          last_operator = Some ''/'', last_operand = Some (Fin False 0),
          just_evaluated = True, awaiting_operand = False, has_input = True,
          btn_ac = ''C'', display_var = error_text\<rparr>) = Fin False 0
   \<and> current (equals \<lparr>acc = Fin False 5, current = error_text, operator = None,
          last_operator = Some ''/'', last_operand = Some (Fin False 0),
          just_evaluated = True, awaiting_operand = False, has_input = True,
          btn_ac = ''C'', display_var = error_text\<rparr>) = error_text
   \<and> percent \<lparr>acc = Fin False 5, current = error_text, operator = None,
          last_operator = Some ''/'', last_operand = Some (Fin False 0),
          just_evaluated = True, awaiting_operand = False, has_input = True,
          btn_ac = ''C'', display_var = error_text\<rparr> =
       Inr \<lparr>acc = Fin False 5, current = error_text, operator = None,
          last_operator = Some ''/'', last_operand = Some (Fin False 0),
          just_evaluated = True, awaiting_operand = False, has_input = True,
          btn_ac = ''C'', display_var = error_text\<rparr>"
proof -
  let ?s = "\<lparr>acc = Fin False 5, current = error_text, operator = None,
          last_operator = Some ''/'', last_operand = Some (Fin False 0),
          just_evaluated = True, awaiting_operand = False, has_input = True,
          btn_ac = ''C'', display_var = error_text\<rparr>"
  note main = handlers_total_zero_default
  have p: "py_float (current ?s) = None"
    by (simp add: py_float_error_text)
  have q: "py_float (replace_char (current ?s) CHR '','' CHR ''.'') = None"
    by (simp add: replace_comma_error_text py_float_error_text)
  from main p have "acc (set_operator ''+'' ?s) =
      (case operator ?s of
         None \<Rightarrow> Fin False 0
       | Some pending \<Rightarrow> apply_operator (acc ?s) (Fin False 0) pending)"
    by blast
  then have w1: "acc (set_operator ''+'' ?s) = Fin False 0" by simp
  from main p have "current (equals ?s) = format_number
      (case operator ?s of
         Some op \<Rightarrow> apply_operator (acc ?s) (Fin False 0) op
       | None \<Rightarrow>
           (case (last_operator ?s, last_operand ?s) of
              (Some lop, Some lod) \<Rightarrow> apply_operator (Fin False 0) lod lop
            | _ \<Rightarrow> Fin False 0))"
    by blast
  also have "\<dots> = format_number (apply_operator (Fin False 0) (Fin False 0) ''/'')" by simp
  also have "\<dots> = error_text"
    by (simp add: apply_operator_def format_number_def)
  finally have w2: "current (equals ?s) = error_text" .
  from main q have w3: "percent ?s = Inr ?s" by blast
  from p w1 w2 w3 show ?thesis by simp
qed


end
